theory Spec2Isabelle
  imports Main
begin

section \<open>The thread-based worker pool and its ventilator\<close>

text \<open>
  A shallow embedding of \<^verbatim>\<open>petastorm/workers_pool/thread_pool.py\<close> and
  \<^verbatim>\<open>petastorm/workers_pool/ventilator.py\<close>.

  The pool object is a record of its attributes. Every method is one atomic step of the
  calling thread on that record: it takes the pool and returns a status together with
  the pool as the call leaves it, also when the call raises, since a Python method that
  raises keeps the assignments it made before. A call that waits for another thread (a
  blocking queue operation without time-out, \<^verbatim>\<open>Thread.join\<close> on a live thread, a loop
  that polls until the pool changes) has the status \<open>Blocked\<close>. A queue operation with
  a time-out is evaluated on the queue as it is: the time-out expires with
  \<^verbatim>\<open>queue.Empty\<close> or \<^verbatim>\<open>queue.Full\<close>.

  The bodies of the threads (a worker's loop, the round-robin consumer's loop, the
  ventilation thread) are given per iteration, so that any interleaving of the threads
  is a sequence of such steps.

  Python attribute names lose their leading underscore.
\<close>

subsection \<open>Exceptions, results of calls\<close>

datatype exn =
    AttributeError
  | IndexError
  | TypeError
  | ZeroDivisionError
  | AssertionError
  | RuntimeError
  | ValueError
  | NotImplementedError
  | EmptyResultError
  | QueueEmpty
  | QueueFull
  | WorkerTerminationRequested
  | OtherError string

datatype 'a status = Raised exn | Blocked | Returned 'a

definition bindE :: "exn + 'a \<Rightarrow> ('a \<Rightarrow> exn + 'b) \<Rightarrow> exn + 'b" where
  "bindE m f = (case m of Inl e \<Rightarrow> Inl e | Inr a \<Rightarrow> f a)"

definition bindS :: "'a status \<times> 's \<Rightarrow> ('a \<Rightarrow> 's \<Rightarrow> 'b status \<times> 's) \<Rightarrow> 'b status \<times> 's" where
  "bindS m f =
     (case m of
        (Returned a, s) \<Rightarrow> f a s
      | (Raised e, s) \<Rightarrow> (Raised e, s)
      | (Blocked, s) \<Rightarrow> (Blocked, s))"

text \<open>Python list indexing: a negative index counts from the end, an index out of range
  raises \<^verbatim>\<open>IndexError\<close>.\<close>

definition py_pos :: "'a list \<Rightarrow> int \<Rightarrow> exn + nat" where
  "py_pos xs i =
     (if 0 \<le> i \<and> i < int (length xs) then Inr (nat i)
      else if i < 0 \<and> - int (length xs) \<le> i then Inr (nat (int (length xs) + i))
      else Inl IndexError)"

definition py_index :: "'a list \<Rightarrow> int \<Rightarrow> exn + 'a" where
  "py_index xs i = bindE (py_pos xs i) (\<lambda>j. Inr (xs ! j))"

subsection \<open>Queues\<close>

text \<open>\<^verbatim>\<open>queue.Queue(maxsize)\<close>: a FIFO, bounded when \<open>maxsize > 0\<close>.\<close>

record 'a pyqueue =
  maxsize :: int
  queue :: "'a list"

definition Queue :: "int \<Rightarrow> 'a pyqueue" where
  "Queue m = \<lparr>maxsize = m, queue = []\<rparr>"

definition empty_q :: "'a pyqueue \<Rightarrow> bool" where
  "empty_q q = (queue q = [])"

definition qsize :: "'a pyqueue \<Rightarrow> int" where
  "qsize q = int (length (queue q))"

definition full_q :: "'a pyqueue \<Rightarrow> bool" where
  "full_q q = (0 < maxsize q \<and> maxsize q \<le> qsize q)"

definition append_q :: "'a \<Rightarrow> 'a pyqueue \<Rightarrow> 'a pyqueue" where
  "append_q x q = q\<lparr>queue := queue q @ [x]\<rparr>"

text \<open>\<^verbatim>\<open>put(x, block=False)\<close> and \<^verbatim>\<open>put(x, block=True, timeout=t)\<close> on the queue as it
  is: \<^verbatim>\<open>queue.Full\<close> when there is no room.\<close>

definition put_timeout :: "'a \<Rightarrow> 'a pyqueue \<Rightarrow> exn + 'a pyqueue" where
  "put_timeout x q = (if full_q q then Inl QueueFull else Inr (append_q x q))"

text \<open>\<^verbatim>\<open>get(block=False)\<close> and \<^verbatim>\<open>get(block=True, timeout=t)\<close> on the queue as it is:
  \<^verbatim>\<open>queue.Empty\<close> when there is nothing to take.\<close>

definition get_timeout :: "'a pyqueue \<Rightarrow> exn + ('a \<times> 'a pyqueue)" where
  "get_timeout q =
     (case queue q of
        [] \<Rightarrow> Inl QueueEmpty
      | x # xs \<Rightarrow> Inr (x, q\<lparr>queue := xs\<rparr>))"

subsection \<open>Work items, results, threads\<close>

text \<open>A work item is the keyword dictionary of one \<^verbatim>\<open>process\<close> call. What travels
  through the result queues is what a worker published, the marker
  \<^verbatim>\<open>VentilatedItemProcessedMessage()\<close>, or an exception object.\<close>

type_synonym work_item = "(string \<times> int) list"

datatype payload =
    Data int
  | VentilatedItemProcessedMessage
  | ExcValue exn

fun isinstance_Exception :: "payload \<Rightarrow> bool" where
  "isinstance_Exception (ExcValue e) = True"
| "isinstance_Exception _ = False"

text \<open>\<^verbatim>\<open>raise result\<close> raises the exception object itself; raising anything that is not
  an exception is a \<^verbatim>\<open>TypeError\<close>.\<close>

fun the_exception :: "payload \<Rightarrow> exn" where
  "the_exception (ExcValue e) = e"
| "the_exception _ = TypeError"

text \<open>A \<^verbatim>\<open>threading.Thread\<close> that was started: it is alive until its body ends.\<close>

datatype thread_state = Running | Terminated

definition is_alive :: "thread_state \<Rightarrow> bool" where
  "is_alive t = (t = Running)"

text \<open>\<^verbatim>\<open>threading.Thread\<close> has \<^verbatim>\<open>start\<close>, \<^verbatim>\<open>run\<close>, \<^verbatim>\<open>join\<close> and \<^verbatim>\<open>is_alive\<close>, and no
  attribute \<^verbatim>\<open>stop\<close>: looking it up raises \<^verbatim>\<open>AttributeError\<close>.\<close>

definition Thread_stop :: "thread_state \<Rightarrow> unit status" where
  "Thread_stop t = Raised AttributeError"

text \<open>\<^verbatim>\<open>Thread.join()\<close>: returns once the thread has ended.\<close>

definition Thread_join :: "thread_state \<Rightarrow> unit status" where
  "Thread_join t = (if is_alive t then Blocked else Returned ())"

record worker_thread =
  worker_id :: int
  wstate :: thread_state

subsection \<open>The concurrent ventilator\<close>

record ventilator =
  items_to_ventilate :: "work_item list"
  iterations_remaining :: "int option"
  randomize_item_order :: bool
  random_seed :: "int option"
  iterations :: "int option"
  ventilation_thread :: "thread_state option"
  stop_requested :: bool

text \<open>\<^verbatim>\<open>ConcurrentVentilator.__init__\<close>. The argument \<open>its\<close> is \<^verbatim>\<open>iterations\<close>
  (\<open>None\<close> for Python's \<^verbatim>\<open>None\<close>); that the items are a list of dictionaries is their
  type here. The random generator that the constructor builds from the seed is the
  library's; what it draws is a parameter of the ventilation thread below.\<close>

definition ConcurrentVentilator_init ::
  "work_item list \<Rightarrow> int option \<Rightarrow> bool \<Rightarrow> int option \<Rightarrow> exn + ventilator" where
  "ConcurrentVentilator_init items its randomize rseed =
     (if its \<noteq> None \<and> the its < 1 then Inl ValueError
      else Inr \<lparr>items_to_ventilate = items,
                iterations_remaining =
                  (if its \<noteq> None \<and> its \<noteq> Some 0 then its else Some 100000),
                randomize_item_order = randomize,
                random_seed = rseed,
                iterations = its,
                ventilation_thread = None,
                stop_requested = False\<rparr>)"

definition ConcurrentVentilator_start :: "ventilator \<Rightarrow> ventilator" where
  "ConcurrentVentilator_start v = v\<lparr>ventilation_thread := Some Running\<rparr>"

definition processed_item :: "ventilator \<Rightarrow> ventilator" where
  "processed_item v = v"

definition ConcurrentVentilator_completed :: "ventilator \<Rightarrow> exn + bool" where
  "ConcurrentVentilator_completed v =
     (if \<not> (iterations_remaining v = None \<or> 0 \<le> the (iterations_remaining v))
      then Inl AssertionError
      else Inr (stop_requested v \<or> iterations_remaining v = Some 0
                \<or> items_to_ventilate v = [] \<or> iterations_remaining v = Some 0))"

definition reset :: "ventilator \<Rightarrow> unit status \<times> ventilator" where
  "reset v =
     (case ConcurrentVentilator_completed v of
        Inl e \<Rightarrow> (Raised e, v)
      | Inr c \<Rightarrow>
          if \<not> c then (Raised NotImplementedError, v)
          else (Returned (),
                ConcurrentVentilator_start (v\<lparr>iterations_remaining := iterations v\<rparr>)))"

definition ConcurrentVentilator_stop :: "ventilator \<Rightarrow> unit status \<times> ventilator" where
  "ConcurrentVentilator_stop v =
     (let v1 = v\<lparr>stop_requested := True\<rparr>
      in case ventilation_thread v1 of
           None \<Rightarrow> (Returned (), v1)
         | Some t \<Rightarrow>
             (case Thread_join t of
                Returned u \<Rightarrow> (Returned (), v1\<lparr>ventilation_thread := None\<rparr>)
              | Raised e \<Rightarrow> (Raised e, v1)
              | Blocked \<Rightarrow> (Blocked, v1)))"

subsection \<open>The pool\<close>

text \<open>\<open>ventilator_queues\<close> is \<^verbatim>\<open>None\<close> until \<^verbatim>\<open>start\<close>; \<open>results_queues\<close> and
  \<open>shared_results_queue\<close> are attributes only from \<^verbatim>\<open>start\<close> on (\<open>None\<close> here: reading
  them raises \<^verbatim>\<open>AttributeError\<close>).\<close>

record pool =
  workers :: "worker_thread list"
  ventilator_queues :: "work_item pyqueue list option"
  results_queues :: "payload pyqueue list option"
  shared_results_queue :: "payload pyqueue option"
  workers_count :: int
  results_queue_size :: int
  stop_event :: bool
  profiling_enabled :: bool
  shuffle_rows :: bool
  seed :: "int option"
  ventilated_items :: int
  ventilated_items_processed :: int
  ventilator :: "ventilator option"
  round_robin_thread :: "thread_state option"
  worker_status :: "bool list"

text \<open>\<^verbatim>\<open>ThreadPool.__init__(workers_count, results_queue_size, profiling_enabled,
  shuffle_rows, seed)\<close>.\<close>

definition ThreadPool_init :: "int \<Rightarrow> int \<Rightarrow> bool \<Rightarrow> bool \<Rightarrow> int option \<Rightarrow> pool" where
  "ThreadPool_init wc rqs prof shuffle sd =
     \<lparr>workers = [],
      ventilator_queues = None,
      results_queues = None,
      shared_results_queue = None,
      workers_count = wc,
      results_queue_size = rqs,
      stop_event = False,
      profiling_enabled = prof,
      shuffle_rows = shuffle,
      seed = sd,
      ventilated_items = 0,
      ventilated_items_processed = 0,
      ventilator = None,
      round_robin_thread = None,
      worker_status = replicate (nat wc) False\<rparr>"

text \<open>\<^verbatim>\<open>ThreadPool.start(worker_class, worker_args, ventilator)\<close>. The worker
  implementations that \<^verbatim>\<open>worker_class\<close> builds are the caller's; a worker thread is
  kept as its worker id and its state, its two queues being those of the pool at that
  index. The threads are created and started, then the round-robin consumer thread, and
  last the ventilator when one is given.\<close>

definition start :: "ventilator option \<Rightarrow> pool \<Rightarrow> unit status \<times> pool" where
  "start vent p =
     (if stop_event p then (Raised RuntimeError, p)
      else
        let n = nat (workers_count p);
            p1 = p\<lparr>ventilator_queues := Some (replicate n (Queue 0)),
                   results_queues := Some (replicate n (Queue 5)),
                   shared_results_queue := Some (Queue 25),
                   workers := map (\<lambda>i. \<lparr>worker_id = int i, wstate = Running\<rparr>) [0..<n],
                   round_robin_thread := Some Running\<rparr>
        in case vent of
             None \<Rightarrow> (Returned (), p1)
           | Some v \<Rightarrow> (Returned (), p1\<lparr>ventilator := Some (ConcurrentVentilator_start v)\<rparr>))"

definition set_worker_busy :: "int \<Rightarrow> pool \<Rightarrow> unit status \<times> pool" where
  "set_worker_busy w p =
     (case py_pos (worker_status p) w of
        Inl e \<Rightarrow> (Raised e, p)
      | Inr j \<Rightarrow> (Returned (), p\<lparr>worker_status := (worker_status p)[j := True]\<rparr>))"

definition set_worker_idle :: "int \<Rightarrow> pool \<Rightarrow> unit status \<times> pool" where
  "set_worker_idle w p =
     (case py_pos (worker_status p) w of
        Inl e \<Rightarrow> (Raised e, p)
      | Inr j \<Rightarrow> (Returned (), p\<lparr>worker_status := (worker_status p)[j := False]\<rparr>))"

definition is_worker_idle :: "pool \<Rightarrow> int \<Rightarrow> exn + bool" where
  "is_worker_idle p w = bindE (py_index (worker_status p) w) (\<lambda>b. Inr (\<not> b))"

text \<open>\<^verbatim>\<open>ThreadPool.ventilate(items_to_ventilate)\<close>: the loop over
  \<^verbatim>\<open>enumerate(items_to_ventilate)\<close>, then the \<^verbatim>\<open>print\<close> of line 231, which reads the
  queues at the indices 0, 1, 2 and 3.\<close>

fun ventilate_loop :: "int \<Rightarrow> work_item list \<Rightarrow> pool \<Rightarrow> unit status \<times> pool" where
  "ventilate_loop i [] p = (Returned (), p)"
| "ventilate_loop i (item # rest) p =
     (if workers_count p = 0 then (Raised ZeroDivisionError, p)
      else
        case ventilator_queues p of
          None \<Rightarrow> (Raised TypeError, p)
        | Some qs \<Rightarrow>
            (case py_pos qs (i mod workers_count p) of
               Inl e \<Rightarrow> (Raised e, p)
             | Inr j \<Rightarrow>
                 if full_q (qs ! j) then (Blocked, p)
                 else ventilate_loop (i + 1) rest
                        (p\<lparr>ventilator_queues := Some (qs[j := append_q item (qs ! j)]),
                           ventilated_items := ventilated_items p + 1\<rparr>)))"

definition ventilate_print :: "pool \<Rightarrow> exn + unit" where
  "ventilate_print p =
     (case ventilator_queues p of
        None \<Rightarrow> Inl TypeError
      | Some qs \<Rightarrow>
          bindE (py_index qs 0) (\<lambda>q1.
          bindE (py_index qs 1) (\<lambda>q2.
          bindE (py_index qs 2) (\<lambda>q3.
          bindE (py_index qs 3) (\<lambda>q4. Inr ())))))"

definition ventilate :: "work_item list \<Rightarrow> pool \<Rightarrow> unit status \<times> pool" where
  "ventilate items p =
     bindS (ventilate_loop 0 items p) (\<lambda>u p1.
       case ventilate_print p1 of
         Inl e \<Rightarrow> (Raised e, p1)
       | Inr u \<Rightarrow> (Returned (), p1))"

text \<open>\<^verbatim>\<open>ThreadPool.all_workers_done()\<close>. The \<^verbatim>\<open>print\<close> of line 235 evaluates the three
  readings of a worker one after the other before the condition uses them.\<close>

definition worker_readings :: "pool \<Rightarrow> int \<Rightarrow> exn + (bool \<times> bool \<times> bool)" where
  "worker_readings p w =
     (case results_queues p of
        None \<Rightarrow> Inl AttributeError
      | Some rqs \<Rightarrow>
          bindE (py_index rqs w) (\<lambda>rq.
          bindE (is_worker_idle p w) (\<lambda>idle.
          case ventilator_queues p of
            None \<Rightarrow> Inl TypeError
          | Some vqs \<Rightarrow>
              bindE (py_index vqs w) (\<lambda>vq. Inr (empty_q rq, idle, empty_q vq)))))"

fun all_workers_done_loop :: "int list \<Rightarrow> pool \<Rightarrow> exn + bool" where
  "all_workers_done_loop [] p = Inr True"
| "all_workers_done_loop (w # ws) p =
     bindE (worker_readings p w) (\<lambda>(r_empty, idle, v_empty).
       if \<not> r_empty \<or> \<not> idle \<or> \<not> v_empty then Inr False
       else all_workers_done_loop ws p)"

definition all_workers_done :: "pool \<Rightarrow> exn + bool" where
  "all_workers_done p =
     all_workers_done_loop (map int [0..<nat (workers_count p)]) p"

text \<open>\<^verbatim>\<open>ThreadPool.completed()\<close>. The \<^verbatim>\<open>print\<close> of line 241 evaluates
  \<^verbatim>\<open>self.all_workers_done()\<close>, the shared queue's \<^verbatim>\<open>empty()\<close> and \<^verbatim>\<open>qsize()\<close>, and
  \<^verbatim>\<open>self._ventilator.completed()\<close>, whether a ventilator is attached or not; then
  comes the condition.\<close>

definition completed_print :: "pool \<Rightarrow> exn + unit" where
  "completed_print p =
     bindE (all_workers_done p) (\<lambda>d.
       case shared_results_queue p of
         None \<Rightarrow> Inl AttributeError
       | Some sq \<Rightarrow>
           (case ventilator p of
              None \<Rightarrow> Inl AttributeError
            | Some v \<Rightarrow> bindE (ConcurrentVentilator_completed v) (\<lambda>c. Inr ())))"

definition completed :: "pool \<Rightarrow> exn + bool" where
  "completed p =
     bindE (completed_print p) (\<lambda>u.
     bindE (all_workers_done p) (\<lambda>d.
       if \<not> d then Inr False
       else
         case shared_results_queue p of
           None \<Rightarrow> Inl AttributeError
         | Some sq \<Rightarrow>
             if \<not> empty_q sq then Inr False
             else
               (case ventilator p of
                  None \<Rightarrow> Inr True
                | Some v \<Rightarrow>
                    bindE (ConcurrentVentilator_completed v) (\<lambda>c.
                      if c then Inr True else Inr False))))"

text \<open>\<^verbatim>\<open>ThreadPool.stop()\<close>: the ventilator first, then the round-robin thread, then
  the stop event.\<close>

definition stop :: "pool \<Rightarrow> unit status \<times> pool" where
  "stop p =
     bindS (case ventilator p of
              None \<Rightarrow> (Returned (), p)
            | Some v \<Rightarrow>
                (case ConcurrentVentilator_stop v of
                   (st, v') \<Rightarrow> (st, p\<lparr>ventilator := Some v'\<rparr>)))
       (\<lambda>u p1.
          bindS (case round_robin_thread p1 of
                   None \<Rightarrow> (Returned (), p1)
                 | Some t \<Rightarrow> (Thread_stop t, p1))
            (\<lambda>u p2. (Returned (), p2\<lparr>stop_event := True\<rparr>)))"

text \<open>\<^verbatim>\<open>ThreadPool.join()\<close>: waits for every live worker thread; with profiling, the
  statistics of the workers are merged and printed (\<^verbatim>\<open>stats\<close> is still \<^verbatim>\<open>None\<close> when
  there is no worker).\<close>

definition join :: "pool \<Rightarrow> unit status \<times> pool" where
  "join p =
     (if list_ex (\<lambda>w. Thread_join (wstate w) = Blocked) (workers p) then (Blocked, p)
      else if profiling_enabled p \<and> workers p = [] then (Raised AttributeError, p)
      else (Returned (), p))"

text \<open>\<^verbatim>\<open>ThreadPool.get_results()\<close>. What the call does with a result it has taken
  from the shared queue: an exception object stops and joins the pool and is raised,
  anything else is returned.\<close>

definition deliver :: "payload \<Rightarrow> pool \<Rightarrow> payload status \<times> pool" where
  "deliver result p =
     (if isinstance_Exception result
      then bindS (stop p) (\<lambda>u p2.
           bindS (join p2) (\<lambda>u p3. (Raised (the_exception result), p3)))
      else (Returned result, p))"

text \<open>One iteration of the \<^verbatim>\<open>while True\<close> loop: \<open>Returned None\<close> is \<^verbatim>\<open>continue\<close>,
  \<open>Returned (Some r)\<close> is \<^verbatim>\<open>return r\<close>. The \<^verbatim>\<open>print\<close> of line 265 evaluates
  \<^verbatim>\<open>self.completed()\<close> before the condition does. The \<^verbatim>\<open>try\<close> block spans the take
  from the shared queue and the delivery, so \<^verbatim>\<open>except queue.Empty\<close> catches the
  time-out of the take as well as a \<^verbatim>\<open>queue.Empty\<close> raised in the delivery.\<close>

definition get_results_iteration :: "pool \<Rightarrow> payload option status \<times> pool" where
  "get_results_iteration p =
     (case bindE (completed p) (\<lambda>c. completed p) of
        Inl e \<Rightarrow> (Raised e, p)
      | Inr c \<Rightarrow>
          (if c then (Raised EmptyResultError, p)
           else
             (case shared_results_queue p of
                None \<Rightarrow> (Raised AttributeError, p)
              | Some sq \<Rightarrow>
                  (case get_timeout sq of
                     Inl e \<Rightarrow> (Returned None, p)
                   | Inr (result, sq') \<Rightarrow>
                       (case deliver result (p\<lparr>shared_results_queue := Some sq'\<rparr>) of
                          (Returned r, p1) \<Rightarrow> (Returned (Some r), p1)
                        | (Blocked, p1) \<Rightarrow> (Blocked, p1)
                        | (Raised e, p1) \<Rightarrow>
                            if e = QueueEmpty then (Returned None, p1)
                            else (Raised e, p1))))))"

text \<open>The loop. On a pool that no other thread changes it goes on for ever when the
  shared queue is empty and the pool is not completed: the value is then \<open>None\<close>.\<close>

partial_function (option) get_results :: "pool \<Rightarrow> (payload status \<times> pool) option" where
  "get_results p =
     (case get_results_iteration p of
        (Returned None, p1) \<Rightarrow> get_results p1
      | (Returned (Some r), p1) \<Rightarrow> Some (Returned r, p1)
      | (Raised e, p1) \<Rightarrow> Some (Raised e, p1)
      | (Blocked, p1) \<Rightarrow> Some (Blocked, p1))"

text \<open>\<^verbatim>\<open>ThreadPool._stop_aware_put(data, worker_id)\<close>: the loop tries again while the
  queue is full and the stop event is not set.\<close>

definition stop_aware_put :: "payload \<Rightarrow> int \<Rightarrow> pool \<Rightarrow> unit status \<times> pool" where
  "stop_aware_put data w p =
     (case results_queues p of
        None \<Rightarrow> (Raised AttributeError, p)
      | Some rqs \<Rightarrow>
          (case py_pos rqs w of
             Inl e \<Rightarrow> (Raised e, p)
           | Inr j \<Rightarrow>
               (case put_timeout data (rqs ! j) of
                  Inr q' \<Rightarrow> (Returned (), p\<lparr>results_queues := Some (rqs[j := q'])\<rparr>)
                | Inl e \<Rightarrow>
                    if stop_event p then (Raised WorkerTerminationRequested, p)
                    else (Blocked, p))))"

subsection \<open>The round-robin consumer\<close>

text \<open>One iteration of the \<^verbatim>\<open>while\<close> loop of \<^verbatim>\<open>ThreadPool._round_robin_consumer\<close>,
  entered with the value \<open>cw\<close> of \<^verbatim>\<open>current_worker\<close>: the loop ends (\<open>RR_Exit\<close>) or goes
  on with the next value of \<^verbatim>\<open>current_worker\<close>. After \<^verbatim>\<open>should_skip\<close> the \<^verbatim>\<open>print\<close> of
  line 366 evaluates the three readings of the current worker. The take from the
  worker's output queue is \<^verbatim>\<open>get(block=False)\<close> with its own \<^verbatim>\<open>except queue.Empty\<close>
  when \<^verbatim>\<open>use_non_blocking\<close> holds, and \<^verbatim>\<open>get(block=True, timeout=5.0)\<close> otherwise.\<close>

datatype rr_ctl = RR_Exit | RR_Next int

definition use_non_blocking :: "pool \<Rightarrow> bool" where
  "use_non_blocking p = (shuffle_rows p \<and> (seed p = None \<or> seed p = Some 0))"

text \<open>\<^verbatim>\<open>current_worker = (current_worker + 1) % self.workers_count\<close>\<close>

definition advance :: "int \<Rightarrow> pool \<Rightarrow> rr_ctl status \<times> pool" where
  "advance cw p =
     (if workers_count p = 0 then (Raised ZeroDivisionError, p)
      else (Returned (RR_Next ((cw + 1) mod workers_count p)), p))"

text \<open>The three \<^verbatim>\<open>except\<close> clauses of the loop body: \<^verbatim>\<open>queue.Empty\<close> and any other
  exception move on to the next worker, \<^verbatim>\<open>queue.Full\<close> keeps the worker.\<close>

definition rr_except :: "exn \<Rightarrow> int \<Rightarrow> pool \<Rightarrow> rr_ctl status \<times> pool" where
  "rr_except e cw p =
     (if e = QueueEmpty then advance cw p
      else if e = QueueFull then (Returned (RR_Next cw), p)
      else advance cw p)"

definition rr_take :: "int \<Rightarrow> pool \<Rightarrow> exn + (payload \<times> pool)" where
  "rr_take cw p =
     (case results_queues p of
        None \<Rightarrow> Inl AttributeError
      | Some rqs \<Rightarrow>
          bindE (py_pos rqs cw) (\<lambda>j.
          bindE (get_timeout (rqs ! j)) (\<lambda>(item, q').
            Inr (item, p\<lparr>results_queues := Some (rqs[j := q'])\<rparr>))))"

text \<open>\<^verbatim>\<open>self._shared_results_queue.put(item, block=False)\<close>, then the move to the next
  worker.\<close>

definition rr_forward :: "payload \<Rightarrow> int \<Rightarrow> pool \<Rightarrow> rr_ctl status \<times> pool" where
  "rr_forward item cw p =
     (case shared_results_queue p of
        None \<Rightarrow> rr_except AttributeError cw p
      | Some sq \<Rightarrow>
          (case put_timeout item sq of
             Inl e \<Rightarrow> rr_except e cw p
           | Inr sq' \<Rightarrow> advance cw (p\<lparr>shared_results_queue := Some sq'\<rparr>)))"

definition round_robin_iteration :: "int \<Rightarrow> pool \<Rightarrow> rr_ctl status \<times> pool" where
  "round_robin_iteration cw p =
     (if stop_event p then (Returned RR_Exit, p)
      else
        case all_workers_done p of
          Inl e \<Rightarrow> rr_except e cw p
        | Inr d \<Rightarrow>
            if d then (Returned RR_Exit, p)
            else
              (case worker_readings p cw of
                 Inl e \<Rightarrow> rr_except e cw p
               | Inr (r_empty, idle, v_empty) \<Rightarrow>
                   if r_empty \<and> idle \<and> v_empty then advance cw p
                   else if use_non_blocking p then
                     (case rr_take cw p of
                        Inl e \<Rightarrow> if e = QueueEmpty then advance cw p else rr_except e cw p
                      | Inr (item, p1) \<Rightarrow> rr_forward item cw p1)
                   else
                     (case rr_take cw p of
                        Inl e \<Rightarrow> rr_except e cw p
                      | Inr (item, p1) \<Rightarrow> rr_forward item cw p1)))"

subsection \<open>A worker thread\<close>

text \<open>One iteration of the loop of \<^verbatim>\<open>WorkerThread.run\<close> for the worker \<open>w\<close>. The
  worker implementation is the caller's: \<open>process item\<close> gives what
  \<^verbatim>\<open>process(**item)\<close> publishes through \<^verbatim>\<open>publish_func\<close>, in order, and the exception
  it then raises, if any.\<close>

datatype loop_ctl = Continue | Break

type_synonym process_fn = "work_item \<Rightarrow> payload list \<times> exn option"

fun publish_all :: "payload list \<Rightarrow> int \<Rightarrow> pool \<Rightarrow> unit status \<times> pool" where
  "publish_all [] w p = (Returned (), p)"
| "publish_all (d # ds) w p = bindS (stop_aware_put d w p) (\<lambda>u. publish_all ds w)"

definition take_work :: "int \<Rightarrow> pool \<Rightarrow> work_item status \<times> pool" where
  "take_work w p =
     (case ventilator_queues p of
        None \<Rightarrow> (Raised TypeError, p)
      | Some vqs \<Rightarrow>
          (case py_pos vqs w of
             Inl e \<Rightarrow> (Raised e, p)
           | Inr j \<Rightarrow>
               (case get_timeout (vqs ! j) of
                  Inl e \<Rightarrow> (Raised e, p)
                | Inr (item, q') \<Rightarrow>
                    (Returned item, p\<lparr>ventilator_queues := Some (vqs[j := q'])\<rparr>))))"

definition worker_try :: "process_fn \<Rightarrow> int \<Rightarrow> pool \<Rightarrow> unit status \<times> pool" where
  "worker_try process w p =
     bindS (take_work w p) (\<lambda>item p1.
     bindS (set_worker_busy w p1) (\<lambda>u p2.
     bindS (publish_all (fst (process item)) w p2) (\<lambda>u p3.
       case snd (process item) of
         Some e \<Rightarrow> (Raised e, p3)
       | None \<Rightarrow>
           bindS (stop_aware_put VentilatedItemProcessedMessage w p3) (\<lambda>u p4.
             set_worker_idle w p4))))"

text \<open>\<^verbatim>\<open>self._results_queue.put(e)\<close>: a blocking put without time-out.\<close>

definition put_exception :: "exn \<Rightarrow> int \<Rightarrow> pool \<Rightarrow> unit status \<times> pool" where
  "put_exception e w p =
     (case results_queues p of
        None \<Rightarrow> (Raised AttributeError, p)
      | Some rqs \<Rightarrow>
          (case py_pos rqs w of
             Inl e' \<Rightarrow> (Raised e', p)
           | Inr j \<Rightarrow>
               if full_q (rqs ! j) then (Blocked, p)
               else (Returned (),
                     p\<lparr>results_queues := Some (rqs[j := append_q (ExcValue e) (rqs ! j)])\<rparr>)))"

definition worker_iteration :: "process_fn \<Rightarrow> int \<Rightarrow> pool \<Rightarrow> loop_ctl status \<times> pool" where
  "worker_iteration process w p =
     (if stop_event p then (Returned Break, p)
      else
        case worker_try process w p of
          (Returned u, p1) \<Rightarrow> (Returned Continue, p1)
        | (Blocked, p1) \<Rightarrow> (Blocked, p1)
        | (Raised e, p1) \<Rightarrow>
            if e = QueueEmpty
            then bindS (set_worker_idle w p1) (\<lambda>u p2. (Returned Continue, p2))
            else if e = WorkerTerminationRequested then (Returned Continue, p1)
            else bindS (put_exception e w p1) (\<lambda>u p2. (Returned Break, p2)))"

text \<open>The thread ends when the loop is left, by \<^verbatim>\<open>break\<close> or by an exception of one of
  the handlers.\<close>

definition terminate_worker :: "int \<Rightarrow> pool \<Rightarrow> pool" where
  "terminate_worker w p =
     p\<lparr>workers := map (\<lambda>t. if worker_id t = w then t\<lparr>wstate := Terminated\<rparr> else t)
                     (workers p)\<rparr>"

definition WorkerThread_run_iteration ::
  "process_fn \<Rightarrow> int \<Rightarrow> pool \<Rightarrow> loop_ctl status \<times> pool" where
  "WorkerThread_run_iteration process w p =
     (case worker_iteration process w p of
        (Returned Continue, p1) \<Rightarrow> (Returned Continue, p1)
      | (Blocked, p1) \<Rightarrow> (Blocked, p1)
      | (st, p1) \<Rightarrow> (st, terminate_worker w p1))"

subsection \<open>The ventilation thread\<close>

text \<open>\<^verbatim>\<open>ConcurrentVentilator._ventilate\<close>, the body of the ventilation thread:
  \<^verbatim>\<open>for i in range(self._iterations_remaining)\<close>. The ventilator calls the
  \<^verbatim>\<open>ventilate\<close> of its pool. The permutations that the two random generators draw are
  a parameter: \<open>perm seeded i xs\<close> is the one drawn at iteration \<open>i\<close>.\<close>

type_synonym perm_fn = "bool \<Rightarrow> nat \<Rightarrow> work_item list \<Rightarrow> work_item list"

fun ventilate_iterations ::
  "perm_fn \<Rightarrow> nat list \<Rightarrow> ventilator \<Rightarrow> pool \<Rightarrow> unit status \<times> ventilator \<times> pool" where
  "ventilate_iterations perm [] v p = (Returned (), v, p)"
| "ventilate_iterations perm (i # is) v p =
     (let v1 =
        (if randomize_item_order v
         then (if random_seed v \<noteq> None \<and> random_seed v \<noteq> Some 0
               then v\<lparr>items_to_ventilate := perm True i (items_to_ventilate v)\<rparr>
               else v\<lparr>items_to_ventilate := perm False i (items_to_ventilate v)\<rparr>)
         else v)
      in case ventilate (items_to_ventilate v1) p of
           (Returned u, p1) \<Rightarrow> ventilate_iterations perm is v1 p1
         | (Raised e, p1) \<Rightarrow> (Raised e, v1, p1)
         | (Blocked, p1) \<Rightarrow> (Blocked, v1, p1))"

definition ConcurrentVentilator_ventilate ::
  "perm_fn \<Rightarrow> ventilator \<Rightarrow> pool \<Rightarrow> unit status \<times> ventilator \<times> pool" where
  "ConcurrentVentilator_ventilate perm v p =
     (case iterations_remaining v of
        None \<Rightarrow> (Raised TypeError, v, p)
      | Some k \<Rightarrow> ventilate_iterations perm [0..<nat k] v p)"

text \<open>The ventilation thread of the ventilator attached to the pool, run to its end.\<close>

definition ventilation_thread_run :: "perm_fn \<Rightarrow> pool \<Rightarrow> unit status \<times> pool" where
  "ventilation_thread_run perm p =
     (case ventilator p of
        None \<Rightarrow> (Returned (), p)
      | Some v \<Rightarrow>
          (case ConcurrentVentilator_ventilate perm v p of
             (Blocked, v1, p1) \<Rightarrow> (Blocked, p1\<lparr>ventilator := Some v1\<rparr>)
           | (st, v1, p1) \<Rightarrow>
               (st, p1\<lparr>ventilator :=
                         Some (v1\<lparr>ventilation_thread :=
                                    map_option (\<lambda>t. Terminated) (ventilation_thread v1)\<rparr>)\<rparr>)))"

section \<open>Notions used by the properties\<close>

text \<open>The shared output queue has no room.\<close>

definition shared_full :: "pool \<Rightarrow> bool" where
  "shared_full p = (case shared_results_queue p of None \<Rightarrow> False | Some sq \<Rightarrow> full_q sq)"

text \<open>Worker \<open>w\<close> is drained: its output queue is empty, it is idle, and its input queue
  is empty.\<close>

definition drained :: "pool \<Rightarrow> int \<Rightarrow> bool" where
  "drained p w = (worker_readings p w = Inr (True, True, True))"

text \<open>The input queues are those of a started pool with at least one worker: one
  unbounded queue per worker.\<close>

definition input_queues_ready :: "pool \<Rightarrow> bool" where
  "input_queues_ready p =
     (case ventilator_queues p of
        None \<Rightarrow> False
      | Some qs \<Rightarrow> 0 < workers_count p \<and> length qs = nat (workers_count p)
                   \<and> list_all (\<lambda>q. maxsize q \<le> 0) qs)"

text \<open>The input queues \<open>qs\<close> of \<open>n\<close> workers after the items have been dealt out
  round-robin: queue \<open>j\<close> has received, in their order, the items whose position \<open>k\<close>
  in the list has \<open>k mod n = j\<close>.\<close>

definition round_robin_queues ::
  "int \<Rightarrow> work_item list \<Rightarrow> work_item pyqueue list \<Rightarrow> work_item pyqueue list" where
  "round_robin_queues n items qs =
     map (\<lambda>j. (qs ! j)\<lparr>queue := queue (qs ! j) @ nths items {k. int k mod n = int j}\<rparr>)
       [0..<length qs]"

subsection \<open>Concrete pools\<close>

text \<open>\<^verbatim>\<open>ThreadPool(4)\<close>, and the same pool after \<^verbatim>\<open>start(worker_class)\<close>.\<close>

definition pool4 :: pool where
  "pool4 = ThreadPool_init 4 50 False False None"

definition started4 :: pool where
  "started4 = snd (start None pool4)"

text \<open>\<^verbatim>\<open>ThreadPool(2)\<close> after \<^verbatim>\<open>start(worker_class)\<close>.\<close>

definition started2 :: pool where
  "started2 = snd (start None (ThreadPool_init 2 50 False False None))"

text \<open>\<^verbatim>\<open>ConcurrentVentilator(pool, [{'x': 5}], iterations=1)\<close> and the pool of four
  workers started with it.\<close>

definition vent_once :: ventilator where
  "vent_once =
     \<lparr>items_to_ventilate = [ [(''x'', 5)] ],
      iterations_remaining = Some 1,
      randomize_item_order = False,
      random_seed = None,
      iterations = Some 1,
      ventilation_thread = None,
      stop_requested = False\<rparr>"

definition fed4 :: pool where
  "fed4 = snd (start (Some vent_once) pool4)"

text \<open>No shuffling takes place in the runs below.\<close>

definition no_shuffle :: perm_fn where
  "no_shuffle seeded i xs = xs"

text \<open>A worker implementation whose \<^verbatim>\<open>process\<close> publishes nothing and raises
  \<^verbatim>\<open>ValueError\<close>.\<close>

definition failing_process :: process_fn where
  "failing_process item = ([], Some ValueError)"

text \<open>A run of \<open>fed4\<close>: the ventilation thread ventilates its item and ends
  (\<open>ventilated_once4\<close>); worker 0 takes the item and its \<^verbatim>\<open>process\<close> raises
  (\<open>raised4\<close>); the round-robin consumer moves the exception object from the output queue
  of worker 0 to the shared queue (\<open>failed4\<close>).\<close>

definition ventilated_once4 :: pool where
  "ventilated_once4 = snd (ventilation_thread_run no_shuffle fed4)"

definition raised4 :: pool where
  "raised4 = snd (WorkerThread_run_iteration failing_process 0 ventilated_once4)"

definition failed4 :: pool where
  "failed4 = snd (round_robin_iteration 0 raised4)"

text \<open>The pool \<open>failed4\<close> as the first iteration of \<^verbatim>\<open>get_results\<close> leaves it.\<close>

definition after_failed4 :: pool where
  "after_failed4 = snd (get_results_iteration failed4)"

text \<open>\<^verbatim>\<open>ConcurrentVentilator(pool, [{'x': 0}, {'x': 1}], iterations=2)\<close>, the pool of
  four workers started with it, and that pool once the ventilation thread has ended.\<close>

definition vent_twice :: ventilator where
  "vent_twice =
     \<lparr>items_to_ventilate = [ [(''x'', 0)], [(''x'', 1)] ],
      iterations_remaining = Some 2,
      randomize_item_order = False,
      random_seed = None,
      iterations = Some 2,
      ventilation_thread = None,
      stop_requested = False\<rparr>"

definition ventilated4 :: pool where
  "ventilated4 =
     snd (ventilation_thread_run no_shuffle (snd (start (Some vent_twice) pool4)))"

text \<open>The started pool of four workers when 25 results wait in the shared queue for the
  caller and worker 0, still busy with its item, has published one more, \<open>Data 7\<close>.\<close>

definition congested4 :: pool where
  "congested4 =
     started4
       \<lparr>results_queues :=
          Some [\<lparr>maxsize = 5, queue = [Data 7]\<rparr>, Queue 5, Queue 5, Queue 5],
        shared_results_queue :=
          Some \<lparr>maxsize = 25, queue = replicate 25 (Data 0)\<rparr>,
        worker_status := [True, False, False, False]\<rparr>"

text \<open>A worker implementation whose \<^verbatim>\<open>process\<close> publishes \<open>Data 1\<close> and returns.\<close>

definition working_process :: process_fn where
  "working_process item = ([Data 1], None)"

text \<open>Another run of \<open>fed4\<close>: the round-robin consumer runs its first iteration before
  the ventilation thread has ventilated, which leaves the pool as it is; then the
  ventilation thread ventilates its item and ends (\<open>ventilated_once4\<close>), and worker 0
  takes the item and processes it (\<open>stranded4\<close>).\<close>

definition stranded4 :: pool where
  "stranded4 = snd (WorkerThread_run_iteration working_process 0 ventilated_once4)"

section \<open>Properties\<close>

subsection \<open>Auxiliary facts\<close>

lemma bindS_Returned:
  assumes "bindS m f = (Returned b, s')"
  obtains a s where "m = (Returned a, s)" and "f a s = (Returned b, s')"
proof (cases m)
  case (Pair st s)
  with assms that show ?thesis
    by (cases st) (simp_all add: bindS_def)
qed


lemma py_pos_bound: "py_pos xs i = Inr j \<Longrightarrow> j < length xs"
  by (auto simp: py_pos_def split: if_splits)






lemma all_workers_done_loop_True:
  "(all_workers_done_loop ws p = Inr True) = (\<forall>w\<in>set ws. drained p w)"
proof (induction ws)
  case Nil
  show ?case by simp
next
  case (Cons w ws)
  show ?case
  proof (cases "worker_readings p w")
    case (Inl e)
    then show ?thesis by (simp add: bindE_def drained_def)
  next
    case (Inr r)
    obtain a b c where r: "r = (a, b, c)" by (cases r) auto
    with Inr Cons show ?thesis
      by (auto simp: bindE_def drained_def)
  qed
qed

lemma worker_readings_ventilator:
  "worker_readings (p\<lparr>ventilator := v\<rparr>) w = worker_readings p w"
  by (simp add: worker_readings_def is_worker_idle_def cong: option.case_cong)

lemma all_workers_done_loop_ventilator:
  "all_workers_done_loop ws (p\<lparr>ventilator := v\<rparr>) = all_workers_done_loop ws p"
  by (induction ws) (simp_all add: worker_readings_ventilator cong: if_cong)

lemma all_workers_done_ventilator:
  "all_workers_done (p\<lparr>ventilator := v\<rparr>) = all_workers_done p"
  by (simp add: all_workers_done_def all_workers_done_loop_ventilator)




lemma list_update_neq: "j < length xs \<Longrightarrow> y \<noteq> xs ! j \<Longrightarrow> xs[j := y] \<noteq> xs"
  by (metis nth_list_update_eq)

lemma rr_take_ok:
  assumes "rr_take cw p = Inr (item, p1)"
  shows "results_queues p1 \<noteq> results_queues p"
    and "shared_results_queue p1 = shared_results_queue p"
    and "workers_count p1 = workers_count p"
proof -
  from assms obtain rqs j x xs where
    rq: "results_queues p = Some rqs" and j: "py_pos rqs cw = Inr j"
    and q: "queue (rqs ! j) = x # xs"
    and p1: "p1 = p\<lparr>results_queues := Some (rqs[j := (rqs ! j)\<lparr>queue := xs\<rparr>])\<rparr>"
    by (auto simp: rr_take_def bindE_def get_timeout_def
             split: option.splits sum.splits list.splits)
  have "queue ((rqs ! j)\<lparr>queue := xs\<rparr>) \<noteq> queue (rqs ! j)"
    using q by simp
  then have "(rqs ! j)\<lparr>queue := xs\<rparr> \<noteq> rqs ! j"
    by metis
  with py_pos_bound [OF j] have "rqs[j := (rqs ! j)\<lparr>queue := xs\<rparr>] \<noteq> rqs"
    by (rule list_update_neq)
  with rq p1 show "results_queues p1 \<noteq> results_queues p" by simp
  from p1 show "shared_results_queue p1 = shared_results_queue p" by simp
  from p1 show "workers_count p1 = workers_count p" by simp
qed




lemma advance_not_exit: "fst (advance cw p) \<noteq> Returned RR_Exit"
  by (simp add: advance_def)

lemma rr_except_not_exit: "fst (rr_except e cw p) \<noteq> Returned RR_Exit"
  by (simp add: rr_except_def advance_not_exit)

lemma rr_forward_not_exit: "fst (rr_forward item cw p) \<noteq> Returned RR_Exit"
  by (simp add: rr_forward_def rr_except_not_exit advance_not_exit split: option.splits sum.splits)

lemma merger_exit_iff:
  "(fst (round_robin_iteration cw p) = Returned RR_Exit)
     = (stop_event p \<or> all_workers_done p = Inr True)"
proof (cases "stop_event p")
  case True
  then show ?thesis by (simp add: round_robin_iteration_def)
next
  case ns: False
  show ?thesis
  proof (cases "all_workers_done p")
    case (Inl e)
    with ns show ?thesis by (simp add: round_robin_iteration_def rr_except_not_exit)
  next
    case (Inr d)
    show ?thesis
    proof (cases d)
      case True
      with ns Inr show ?thesis by (simp add: round_robin_iteration_def)
    next
      case False
      with ns Inr show ?thesis
        by (simp add: round_robin_iteration_def rr_except_not_exit advance_not_exit
                      rr_forward_not_exit split: sum.splits prod.splits)
    qed
  qed
qed

lemma stop_sets_event:
  assumes "stop p = (Returned u, p')"
  shows "stop_event p'"
proof -
  from assms [unfolded stop_def] obtain a p1 where
    "bindS (case round_robin_thread p1 of
              None \<Rightarrow> (Returned (), p1)
            | Some t \<Rightarrow> (Thread_stop t, p1))
       (\<lambda>u p2. (Returned (), p2\<lparr>stop_event := True\<rparr>)) = (Returned u, p')"
    by (rule bindS_Returned)
  then obtain b p2 where "(Returned (), p2\<lparr>stop_event := True\<rparr>) = (Returned u, p')"
    by (rule bindS_Returned)
  then show ?thesis by auto
qed

lemma get_results_raises:
  "get_results_iteration p = (Raised e, p') \<Longrightarrow> get_results p = Some (Raised e, p')"
  by (subst get_results.simps) simp

text \<open>When an iteration of \<^verbatim>\<open>get_results\<close> ends in \<^verbatim>\<open>continue\<close> on a pool it has not
  changed, the call does not return as long as no other thread changes the pool.\<close>

lemma get_results_spins:
  assumes "get_results_iteration p = (Returned None, p)"
  shows "get_results p = None"
proof (rule ccontr)
  assume "get_results p \<noteq> None"
  then obtain z where z: "get_results p = Some z" by auto
  have "p \<noteq> p"
  proof (rule get_results.raw_induct [where P = "\<lambda>q y. q \<noteq> p", OF _ z])
    fix f x y
    assume ih: "\<And>x y. f x = Some y \<Longrightarrow> x \<noteq> p"
      and b: "(case get_results_iteration x of
                 (Returned None, p1) \<Rightarrow> f p1
               | (Returned (Some r), p1) \<Rightarrow> Some (Returned r, p1)
               | (Raised e, p1) \<Rightarrow> Some (Raised e, p1)
               | (Blocked, p1) \<Rightarrow> Some (Blocked, p1)) = Some y"
    show "x \<noteq> p"
    proof
      assume "x = p"
      with b assms have "f p = Some y" by simp
      with ih show False by blast
    qed
  qed
  then show False by simp
qed

subsection \<open>General facts about the pool\<close>

text \<open>After a \<^verbatim>\<open>start()\<close> that returned, the pool has its round-robin thread, and
  \<^verbatim>\<open>stop()\<close> on a pool that has one never returns: it raises \<^verbatim>\<open>AttributeError\<close>, or
  waits for the ventilation thread first, and leaves the stop event as it was.\<close>

lemma start_sets_round_robin_thread:
  "start vent p = (Returned u, p') \<Longrightarrow> round_robin_thread p' = Some Running"
  by (auto simp: start_def Let_def split: if_splits option.splits)

lemma stop_on_started_pool:
  assumes "round_robin_thread p = Some t"
  shows "fst (stop p) = Raised AttributeError \<or> fst (stop p) = Blocked"
    and "stop_event (snd (stop p)) = stop_event p"
proof -
  obtain st p1 where m: "(case ventilator p of
              None \<Rightarrow> (Returned (), p)
            | Some v \<Rightarrow>
                (case ConcurrentVentilator_stop v of
                   (st, v') \<Rightarrow> (st, p\<lparr>ventilator := Some v'\<rparr>))) = (st, p1)"
    by (cases "(case ventilator p of
              None \<Rightarrow> (Returned (), p)
            | Some v \<Rightarrow>
                (case ConcurrentVentilator_stop v of
                   (st, v') \<Rightarrow> (st, p\<lparr>ventilator := Some v'\<rparr>)))") auto
  then have r: "round_robin_thread p1 = Some t" and e: "stop_event p1 = stop_event p"
    using assms by (auto split: option.splits prod.splits)
  have s: "st = Returned () \<or> st = Blocked"
    using m
    by (auto simp: ConcurrentVentilator_stop_def Let_def Thread_join_def
             split: option.splits prod.splits if_splits)
  from s show "fst (stop p) = Raised AttributeError \<or> fst (stop p) = Blocked"
    unfolding stop_def m using r by (auto simp: bindS_def Thread_stop_def)
  from s show "stop_event (snd (stop p)) = stop_event p"
    unfolding stop_def m using r e by (auto simp: bindS_def Thread_stop_def)
qed

text \<open>So an exception object taken from the shared queue of such a pool is never
  raised to the caller of \<^verbatim>\<open>get_results\<close>.\<close>

lemma deliver_exception_on_started_pool:
  assumes "round_robin_thread p = Some t"
  shows "fst (deliver (ExcValue e) p) = Raised AttributeError
         \<or> fst (deliver (ExcValue e) p) = Blocked"
proof -
  obtain st p1 where s: "stop p = (st, p1)" by (cases "stop p") auto
  with stop_on_started_pool(1) [OF assms] have "st = Raised AttributeError \<or> st = Blocked"
    by simp
  with s show ?thesis by (auto simp: deliver_def bindS_def)
qed

text \<open>The completion predicate: without a ventilator it raises; with one it holds
  exactly when every worker is done, the shared queue is empty and the ventilator
  reports itself completed.\<close>

lemma completed_without_ventilator:
  "ventilator p = None \<Longrightarrow> \<exists>e. completed p = Inl e"
  by (auto simp: completed_def completed_print_def bindE_def split: sum.splits option.splits)

lemma completed_with_ventilator:
  assumes "ventilator p = Some v"
  shows "(completed p = Inr True)
           = (all_workers_done p = Inr True
              \<and> map_option empty_q (shared_results_queue p) = Some True
              \<and> ConcurrentVentilator_completed v = Inr True)"
  using assms
  by (auto simp: completed_def completed_print_def bindE_def split: sum.splits option.splits)

text \<open>The ventilation thread leaves the iteration budget and the stop flag of its
  ventilator as they are.\<close>

lemma ventilate_iterations_budget:
  "ventilate_iterations perm js v p = (st, v', p') \<Longrightarrow>
     iterations_remaining v' = iterations_remaining v \<and> stop_requested v' = stop_requested v"
proof (induction js arbitrary: v p)
  case Nil
  then show ?case by simp
next
  case (Cons i js)
  then show ?case
    by (auto simp: Let_def split: if_splits prod.splits status.splits)
qed

text \<open>An item that the consumer has taken is forwarded to a full shared queue by
  going on with the same worker, the pool being the one without the item.\<close>

lemma forward_to_full_queue:
  "shared_full p \<Longrightarrow> rr_forward item cw p = (Returned (RR_Next cw), p)"
  by (auto simp: shared_full_def rr_forward_def put_timeout_def rr_except_def split: option.splits)

text \<open>An iteration of the consumer always returns: it neither raises nor waits.\<close>

lemma all_workers_done_no_workers:
  "workers_count p \<le> 0 \<Longrightarrow> all_workers_done p = Inr True"
  by (simp add: all_workers_done_def)

lemma advance_returns:
  "workers_count p \<noteq> 0 \<Longrightarrow> \<exists>c. fst (advance cw p) = Returned c"
  by (simp add: advance_def)

lemma rr_except_returns:
  "workers_count p \<noteq> 0 \<Longrightarrow> \<exists>c. fst (rr_except e cw p) = Returned c"
  by (simp add: rr_except_def advance_def)

lemma rr_forward_returns:
  "workers_count p \<noteq> 0 \<Longrightarrow> \<exists>c. fst (rr_forward item cw p) = Returned c"
  by (simp add: rr_forward_def rr_except_def advance_def split: option.splits sum.splits)

lemma consumer_never_raises:
  "\<exists>c. fst (round_robin_iteration cw p) = Returned c"
proof (cases "stop_event p \<or> all_workers_done p = Inr True")
  case True
  then show ?thesis by (auto simp: round_robin_iteration_def)
next
  case False
  then have ns: "\<not> stop_event p" and nd: "all_workers_done p \<noteq> Inr True" by auto
  from nd all_workers_done_no_workers [of p] have wc: "workers_count p \<noteq> 0" by auto
  show ?thesis
  proof (cases "all_workers_done p")
    case (Inl e)
    with ns rr_except_returns [OF wc] show ?thesis
      by (simp add: round_robin_iteration_def)
  next
    case (Inr d)
    with nd have d: "\<not> d" by auto
    show ?thesis
    proof (cases "worker_readings p cw")
      case (Inl e)
      with ns Inr d rr_except_returns [OF wc] show ?thesis
        by (simp add: round_robin_iteration_def)
    next
      case rd: (Inr r)
      obtain r_empty idle v_empty where r: "r = (r_empty, idle, v_empty)"
        by (cases r) auto
      show ?thesis
      proof (cases "rr_take cw p")
        case (Inl e)
        with ns Inr d rd r rr_except_returns [OF wc] advance_returns [OF wc] show ?thesis
          by (simp add: round_robin_iteration_def)
      next
        case tk: (Inr x)
        obtain item p1 where x: "x = (item, p1)" by (cases x) auto
        from tk x have "workers_count p1 = workers_count p"
          by (simp add: rr_take_ok(3))
        with wc have "workers_count p1 \<noteq> 0" by simp
        from rr_forward_returns [OF this] ns Inr d rd r tk x advance_returns [OF wc]
        show ?thesis
          by (simp add: round_robin_iteration_def)
      qed
    qed
  qed
qed

subsection \<open>Round-robin ventilation\<close>

text \<open>\<^verbatim>\<open>start()\<close> on a pool with at least one worker makes the input queues ready.\<close>

lemma start_input_queues_ready:
  "start vent p = (Returned u, p') \<Longrightarrow> 0 < workers_count p \<Longrightarrow> input_queues_ready p'"
  by (auto simp: start_def Let_def input_queues_ready_def Queue_def list_all_iff
           split: if_splits option.splits)

lemma mod_pos_index:
  "0 < n \<Longrightarrow> length qs = nat n \<Longrightarrow> py_pos qs (i mod n) = Inr (nat (i mod n))"
  by (simp add: py_pos_def)

text \<open>The loop of \<^verbatim>\<open>ventilate\<close>, entered at position \<open>i\<close>: it returns, every item has
  gone to the queue of its position modulo the number of workers, and each item was
  counted.\<close>

lemma ventilate_loop_round_robin:
  assumes "ventilator_queues p = Some qs" and "0 < workers_count p"
    and "length qs = nat (workers_count p)" and "list_all (\<lambda>q. maxsize q \<le> 0) qs"
  shows "ventilate_loop i items p =
           (Returned (),
            p\<lparr>ventilator_queues :=
                 Some (map (\<lambda>j. (qs ! j)\<lparr>queue := queue (qs ! j)
                          @ nths items {k. (i + int k) mod workers_count p = int j}\<rparr>)
                        [0..<length qs]),
              ventilated_items := ventilated_items p + int (length items)\<rparr>)"
  using assms
proof (induction items arbitrary: i p qs)
  case Nil
  have "map (\<lambda>j. (qs ! j)\<lparr>queue := queue (qs ! j)\<rparr>) [0..<length qs] = qs"
    by (simp add: map_nth)
  with Nil show ?case by simp
next
  case (Cons item rest)
  let ?n = "workers_count p"
  let ?j0 = "nat (i mod ?n)"
  from Cons.prems have j0: "?j0 < length qs" and ij: "int ?j0 = i mod ?n"
    by simp_all
  have pos: "py_pos qs (i mod ?n) = Inr ?j0"
    using Cons.prems by (simp add: mod_pos_index)
  have nf: "\<not> full_q (qs ! ?j0)"
  proof -
    from Cons.prems(4) j0 have "maxsize (qs ! ?j0) \<le> 0"
      by (simp add: list_all_length)
    then show ?thesis by (simp add: full_q_def)
  qed
  let ?qs2 = "qs[?j0 := append_q item (qs ! ?j0)]"
  let ?p2 = "p\<lparr>ventilator_queues := Some ?qs2, ventilated_items := ventilated_items p + 1\<rparr>"
  have step: "ventilate_loop i (item # rest) p = ventilate_loop (i + 1) rest ?p2"
    using Cons.prems pos nf by simp
  have un: "list_all (\<lambda>q. maxsize q \<le> 0) ?qs2"
    using Cons.prems(4) j0
    by (auto simp: list_all_length nth_list_update append_q_def)
  have ih: "ventilate_loop (i + 1) rest ?p2 =
           (Returned (),
            ?p2\<lparr>ventilator_queues :=
                 Some (map (\<lambda>j. (?qs2 ! j)\<lparr>queue := queue (?qs2 ! j)
                          @ nths rest {k. (i + 1 + int k) mod workers_count ?p2 = int j}\<rparr>)
                        [0..<length ?qs2]),
              ventilated_items := ventilated_items ?p2 + int (length rest)\<rparr>)"
    by (rule Cons.IH) (use Cons.prems un in simp_all)
  have hd: "nths (item # rest) {k. (i + int k) mod ?n = int j}
            = (if i mod ?n = int j then [item] else [])
              @ nths rest {k. (i + 1 + int k) mod ?n = int j}" for j
  proof -
    have "{k. Suc k \<in> {k. (i + int k) mod ?n = int j}}
            = {k. (i + 1 + int k) mod ?n = int j}"
    proof -
      have "i + int (Suc k) = i + 1 + int k" for k by simp
      then show ?thesis by (simp only: mem_Collect_eq)
    qed
    then have "nths (item # rest) {k. (i + int k) mod ?n = int j}
            = (if 0 \<in> {k. (i + int k) mod ?n = int j} then [item] else [])
              @ nths rest {k. (i + 1 + int k) mod ?n = int j}"
      by (simp only: nths_Cons)
    then show ?thesis by simp
  qed
  have q: "(?qs2 ! j)\<lparr>queue := queue (?qs2 ! j) @ nths rest {k. (i + 1 + int k) mod ?n = int j}\<rparr>
         = (qs ! j)\<lparr>queue := queue (qs ! j) @ nths (item # rest) {k. (i + int k) mod ?n = int j}\<rparr>"
    if "j < length qs" for j
  proof (cases "j = ?j0")
    case True
    with ij have "i mod ?n = int j" by simp
    with True j0 show ?thesis
      by (simp only: hd) (simp add: append_q_def)
  next
    case False
    with ij have "i mod ?n \<noteq> int j" by linarith
    with False show ?thesis
      by (simp only: hd) simp
  qed
  have "map (\<lambda>j. (?qs2 ! j)\<lparr>queue := queue (?qs2 ! j)
                          @ nths rest {k. (i + 1 + int k) mod ?n = int j}\<rparr>) [0..<length ?qs2]
      = map (\<lambda>j. (qs ! j)\<lparr>queue := queue (qs ! j)
                          @ nths (item # rest) {k. (i + int k) mod ?n = int j}\<rparr>) [0..<length qs]"
    using q by simp
  with step ih show ?case by simp
qed

text \<open>\<^verbatim>\<open>ventilate\<close> on ready input queues: the items are dealt out round-robin and
  counted, nothing waits; the call returns when the pool has at least four workers and
  raises \<^verbatim>\<open>IndexError\<close>, after the items were enqueued, when it has fewer.\<close>

lemma ventilate_round_robin:
  assumes "input_queues_ready p" and "ventilator_queues p = Some qs"
  shows "ventilate items p =
           (if 4 \<le> workers_count p then Returned () else Raised IndexError,
            p\<lparr>ventilator_queues := Some (round_robin_queues (workers_count p) items qs),
              ventilated_items := ventilated_items p + int (length items)\<rparr>)"
proof -
  from assms have n: "0 < workers_count p" and l: "length qs = nat (workers_count p)"
    and u: "list_all (\<lambda>q. maxsize q \<le> 0) qs"
    by (simp_all add: input_queues_ready_def)
  let ?p' = "p\<lparr>ventilator_queues := Some (round_robin_queues (workers_count p) items qs),
               ventilated_items := ventilated_items p + int (length items)\<rparr>"
  have loop: "ventilate_loop 0 items p = (Returned (), ?p')"
    using ventilate_loop_round_robin [OF assms(2) n l u, of 0 items]
    by (simp add: round_robin_queues_def)
  have len: "length (round_robin_queues (workers_count p) items qs) = nat (workers_count p)"
    by (simp add: round_robin_queues_def l)
  have pr: "ventilate_print ?p' = (if 4 \<le> workers_count p then Inr () else Inl IndexError)"
    using n len
    by (auto simp: ventilate_print_def py_index_def py_pos_def bindE_def)
  show ?thesis
    by (simp add: ventilate_def loop bindS_def pr)
qed

subsection \<open>Exception propagation through \<^verbatim>\<open>get_results\<close>\<close>

text \<open>
  C1. When \<^verbatim>\<open>get_results\<close> takes an exception object from the shared queue it calls
  \<^verbatim>\<open>stop()\<close>, then \<^verbatim>\<open>join()\<close>, then raises the object. On a started pool \<^verbatim>\<open>stop()\<close>
  itself raises: in the run \<open>failed4\<close>, where the \<^verbatim>\<open>process\<close> of worker 0 raised
  \<^verbatim>\<open>ValueError\<close> and that exception object is the only entry of the shared queue,
  \<^verbatim>\<open>get_results\<close> takes it and raises \<^verbatim>\<open>AttributeError\<close>, not \<^verbatim>\<open>ValueError\<close>; the stop
  event is not set afterwards and the workers 1, 2 and 3 are still running.
\<close>

theorem get_results_worker_exception_lost:
  "map_option queue (shared_results_queue failed4) = Some [ExcValue ValueError]
   \<and> get_results failed4 = Some (Raised AttributeError, after_failed4)
   \<and> map_option queue (shared_results_queue after_failed4) = Some []
   \<and> stop_event after_failed4 = False
   \<and> map wstate (workers after_failed4) = [Terminated, Running, Running, Running]"
proof -
  have "get_results_iteration failed4 = (Raised AttributeError, after_failed4)"
    by code_simp
  then have "get_results failed4 = Some (Raised AttributeError, after_failed4)"
    by (rule get_results_raises)
  moreover have "map_option queue (shared_results_queue failed4) = Some [ExcValue ValueError]"
    by code_simp
  moreover have "map_option queue (shared_results_queue after_failed4) = Some []"
    by code_simp
  moreover have "stop_event after_failed4 = False"
    by code_simp
  moreover have "map wstate (workers after_failed4) = [Terminated, Running, Running, Running]"
    by code_simp
  ultimately show ?thesis by simp
qed

subsection \<open>The ventilation thread\<close>

text \<open>
  C2. The ventilation thread submits the item list once per iteration of
  \<^verbatim>\<open>range(self._iterations_remaining)\<close> and never assigns \<^verbatim>\<open>_iterations_remaining\<close>.
  For the ventilator built with two items and \<^verbatim>\<open>iterations=2\<close> on a pool of four
  workers, once the thread has ended the list has been submitted twice (four items
  ventilated, each item twice in its worker's input queue), the iteration budget is
  still 2, and \<^verbatim>\<open>completed()\<close> is false.
\<close>

theorem ventilate_keeps_iteration_budget:
  "ventilated_items ventilated4 = 4
   \<and> map_option (map queue) (ventilator_queues ventilated4)
       = Some [ [ [(''x'', 0)], [(''x'', 0)] ], [ [(''x'', 1)], [(''x'', 1)] ], [], [] ]
   \<and> map_option ventilation_thread (ventilator ventilated4) = Some (Some Terminated)
   \<and> map_option iterations_remaining (ventilator ventilated4) = Some (Some 2)
   \<and> map_option ConcurrentVentilator_completed (ventilator ventilated4) = Some (Inr False)"
  by code_simp

subsection \<open>\<^verbatim>\<open>stop\<close>\<close>

text \<open>
  C3. \<^verbatim>\<open>stop()\<close> calls \<^verbatim>\<open>self._round_robin_thread.stop()\<close> before it sets the stop
  event, and a thread object has no such method. On the pool of four workers after
  \<^verbatim>\<open>start\<close>, \<^verbatim>\<open>stop()\<close> raises \<^verbatim>\<open>AttributeError\<close> and leaves the pool as it was, the
  stop event not set.
\<close>

theorem stop_started_pool_raises:
  "stop started4 = (Raised AttributeError, started4) \<and> stop_event started4 = False"
  by code_simp

subsection \<open>\<^verbatim>\<open>ventilate\<close>\<close>

text \<open>
  C4. \<^verbatim>\<open>ventilate\<close> puts the item at position \<open>i\<close> into the input queue
  \<open>i mod N\<close> and counts it; its closing \<^verbatim>\<open>print\<close> then reads the input queues 0 to 3.
  On a started pool of two workers and three items, the items are enqueued round-robin,
  the counter is 3, and the call raises \<^verbatim>\<open>IndexError\<close>.
\<close>

theorem ventilate_two_workers_raises:
  "fst (ventilate [ [(''x'', 0)], [(''x'', 1)], [(''x'', 2)] ] started2) = Raised IndexError
   \<and> map_option (map queue)
        (ventilator_queues (snd (ventilate [ [(''x'', 0)], [(''x'', 1)], [(''x'', 2)] ] started2)))
       = Some [ [ [(''x'', 0)], [(''x'', 2)] ], [ [(''x'', 1)] ] ]
   \<and> ventilated_items (snd (ventilate [ [(''x'', 0)], [(''x'', 1)], [(''x'', 2)] ] started2)) = 3"
  by code_simp

subsection \<open>The round-robin consumer and a full shared queue\<close>

text \<open>
  C5. The consumer puts a taken item into the shared queue without blocking, and on
  \<^verbatim>\<open>queue.Full\<close> goes on with the next iteration. On \<open>congested4\<close>, where the shared
  queue holds 25 results and the output queue of the busy worker 0 holds \<open>Data 7\<close>, one
  iteration returns at once, takes \<open>Data 7\<close> out of the output queue of worker 0 and
  leaves the shared queue as it was: \<open>Data 7\<close> is in no queue any more.
\<close>

theorem consumer_drops_item_when_shared_full:
  "map_option (map queue) (results_queues congested4) = Some [ [Data 7], [], [], [] ]
   \<and> fst (round_robin_iteration 0 congested4) = Returned (RR_Next 0)
   \<and> map_option (map queue) (results_queues (snd (round_robin_iteration 0 congested4)))
       = Some [ [], [], [], [] ]
   \<and> shared_results_queue (snd (round_robin_iteration 0 congested4))
       = shared_results_queue congested4
   \<and> map_option queue (shared_results_queue congested4) = Some (replicate 25 (Data 0))"
  by code_simp

subsection \<open>The completion predicate\<close>

text \<open>
  C6. \<^verbatim>\<open>completed()\<close> begins with a \<^verbatim>\<open>print\<close> that evaluates
  \<^verbatim>\<open>self._ventilator.completed()\<close>. On the pool of four workers started without a
  ventilator, \<^verbatim>\<open>completed()\<close> raises \<^verbatim>\<open>AttributeError\<close>, and so does \<^verbatim>\<open>get_results\<close>.
\<close>

theorem completed_without_ventilator_raises:
  "ventilator started4 = None
   \<and> completed started4 = Inl AttributeError
   \<and> get_results started4 = Some (Raised AttributeError, started4)"
proof -
  have "get_results_iteration started4 = (Raised AttributeError, started4)"
    by code_simp
  then have "get_results started4 = Some (Raised AttributeError, started4)"
    by (rule get_results_raises)
  moreover have "ventilator started4 = None"
    by code_simp
  moreover have "completed started4 = Inl AttributeError"
    by code_simp
  ultimately show ?thesis by simp
qed

subsection \<open>\<^verbatim>\<open>start\<close> and the stop event\<close>

text \<open>
  C7, as amended. \<^verbatim>\<open>start()\<close> fails with the usage error \<^verbatim>\<open>RuntimeError\<close> exactly when
  the stop event is set at the call, and then leaves the pool unchanged; this is the
  case after every \<^verbatim>\<open>stop()\<close> that returned. When the stop event is not set,
  \<^verbatim>\<open>start()\<close> returns without an error and leaves the stop event unset, whether or not
  the pool was started before.
\<close>

theorem start_fails_iff_stop_event_set:
  "((fst (start vent p) = Raised RuntimeError) = stop_event p)
   \<and> (stop_event p \<longrightarrow> start vent p = (Raised RuntimeError, p))
   \<and> (\<not> stop_event p \<longrightarrow>
        fst (start vent p) = Returned () \<and> \<not> stop_event (snd (start vent p)))
   \<and> (fst (stop p) = Returned () \<longrightarrow> fst (start vent (snd (stop p))) = Raised RuntimeError)"
proof -
  have a: "(fst (start vent p) = Raised RuntimeError) = stop_event p"
    by (simp add: start_def Let_def split: option.splits)
  have b: "stop_event p \<longrightarrow> start vent p = (Raised RuntimeError, p)"
    by (simp add: start_def)
  have n: "\<not> stop_event p \<longrightarrow>
        fst (start vent p) = Returned () \<and> \<not> stop_event (snd (start vent p))"
    by (simp add: start_def Let_def split: option.splits)
  have c: "fst (stop p) = Returned () \<longrightarrow> fst (start vent (snd (stop p))) = Raised RuntimeError"
  proof
    assume "fst (stop p) = Returned ()"
    then have "stop p = (Returned (), snd (stop p))" by (metis prod.collapse)
    then have "stop_event (snd (stop p))" by (rule stop_sets_event)
    then show "fst (start vent (snd (stop p))) = Raised RuntimeError"
      by (simp add: start_def)
  qed
  from a b n c show ?thesis by blast
qed

text \<open>The amended C7 on \<^verbatim>\<open>ThreadPool(4)\<close>: \<^verbatim>\<open>stop()\<close> before any \<^verbatim>\<open>start()\<close> returns and
  sets the stop event, and \<^verbatim>\<open>start()\<close> then fails; without that \<^verbatim>\<open>stop()\<close> the first
  \<^verbatim>\<open>start()\<close> returns, and so does a second one.\<close>

theorem start_fails_iff_stop_event_set_witness:
  "fst (stop pool4) = Returned ()
   \<and> stop_event (snd (stop pool4))
   \<and> start None (snd (stop pool4)) = (Raised RuntimeError, snd (stop pool4))
   \<and> \<not> stop_event pool4
   \<and> fst (start None pool4) = Returned ()
   \<and> \<not> stop_event started4
   \<and> fst (start None started4) = Returned ()
   \<and> \<not> stop_event (snd (start None started4))"
proof -
  have h: "fst (stop pool4) = Returned ()" by code_simp
  have s: "stop_event (snd (stop pool4))" by code_simp
  have n: "\<not> stop_event pool4" by code_simp
  have d: "snd (start None pool4) = started4" by (simp add: started4_def)
  from start_fails_iff_stop_event_set [of None "snd (stop pool4)"] s h
  have 1: "start None (snd (stop pool4)) = (Raised RuntimeError, snd (stop pool4))"
    by blast
  from start_fails_iff_stop_event_set [of None pool4] n
  have 2: "fst (start None pool4) = Returned ()" and 3: "\<not> stop_event started4"
    unfolding d by blast+
  from start_fails_iff_stop_event_set [of None started4] 3
  have 4: "fst (start None started4) = Returned ()"
    and 5: "\<not> stop_event (snd (start None started4))"
    by blast+
  from h s 1 n 2 3 4 5 show ?thesis by blast
qed

text \<open>C7 as stated fails: a second \<^verbatim>\<open>start()\<close> on the same pool returns.\<close>

theorem second_start_counterexample:
  "fst (start None pool4) = Returned ()
   \<and> fst (start None (snd (start None pool4))) = Returned ()
   \<and> fst (start None (snd (start None pool4))) \<noteq> Raised RuntimeError"
  by code_simp

subsection \<open>The rotation pointer\<close>




subsection \<open>The end of the consumer's loop\<close>

text \<open>An iteration of the consumer ends the loop exactly when the stop event is set or
  every worker is drained (output queue empty, idle, input queue empty). Whatever is in
  \<^verbatim>\<open>self._ventilator\<close>, the loop ends on the same pools.\<close>

lemma consumer_exit_iff:
  "((fst (round_robin_iteration cw p) = Returned RR_Exit)
      = (stop_event p \<or> (\<forall>w\<in>set (map int [0..<nat (workers_count p)]). drained p w)))
   \<and> ((fst (round_robin_iteration cw (p\<lparr>ventilator := v\<rparr>)) = Returned RR_Exit)
      = (fst (round_robin_iteration cw p) = Returned RR_Exit))"
proof -
  have d: "(all_workers_done q = Inr True)
             = (\<forall>w\<in>set (map int [0..<nat (workers_count q)]). drained q w)" for q
    unfolding all_workers_done_def by (rule all_workers_done_loop_True)
  have a: "(fst (round_robin_iteration cw p) = Returned RR_Exit)
             = (stop_event p \<or> (\<forall>w\<in>set (map int [0..<nat (workers_count p)]). drained p w))"
    unfolding merger_exit_iff d ..
  have b: "(fst (round_robin_iteration cw (p\<lparr>ventilator := v\<rparr>)) = Returned RR_Exit)
             = (fst (round_robin_iteration cw p) = Returned RR_Exit)"
    unfolding merger_exit_iff by (simp add: all_workers_done_ventilator)
  from a b show ?thesis by blast
qed

text \<open>
  C9. The consumer leaves its loop as soon as \<^verbatim>\<open>all_workers_done()\<close> holds, and
  \<^verbatim>\<open>start()\<close> starts the consumer thread before the ventilator. On \<open>fed4\<close>, the pool of
  four workers just started with a ventilator of one item, the first iteration of the
  consumer ends the loop and leaves the pool as it is, although the stop event is not
  set and the ventilator, whose thread is running and has ventilated nothing yet,
  still has its item to ventilate and does not report itself completed. When the item
  is then ventilated and processed by worker 0 (\<open>stranded4\<close>), its results stay in the
  output queue of worker 0, the shared queue stays empty, and \<^verbatim>\<open>get_results\<close> does not
  return.
\<close>

theorem consumer_exits_before_ventilation:
  "round_robin_iteration 0 fed4 = (Returned RR_Exit, fed4)
   \<and> stop_event fed4 = False
   \<and> ventilated_items fed4 = 0
   \<and> map_option ventilation_thread (ventilator fed4) = Some (Some Running)
   \<and> map_option items_to_ventilate (ventilator fed4) = Some [ [(''x'', 5)] ]
   \<and> map_option ConcurrentVentilator_completed (ventilator fed4) = Some (Inr False)
   \<and> map_option (map queue) (results_queues stranded4)
       = Some [ [Data 1, VentilatedItemProcessedMessage], [], [], [] ]
   \<and> map_option queue (shared_results_queue stranded4) = Some []
   \<and> get_results stranded4 = None"
proof -
  have "get_results_iteration stranded4 = (Returned None, stranded4)"
    by code_simp
  then have "get_results stranded4 = None"
    by (rule get_results_spins)
  moreover have "round_robin_iteration 0 fed4 = (Returned RR_Exit, fed4)"
    by code_simp
  moreover have "stop_event fed4 = False"
    by code_simp
  moreover have "ventilated_items fed4 = 0"
    by code_simp
  moreover have "map_option ventilation_thread (ventilator fed4) = Some (Some Running)"
    by code_simp
  moreover have "map_option items_to_ventilate (ventilator fed4) = Some [ [(''x'', 5)] ]"
    by code_simp
  moreover have "map_option ConcurrentVentilator_completed (ventilator fed4) = Some (Inr False)"
    by code_simp
  moreover have "map_option (map queue) (results_queues stranded4)
       = Some [ [Data 1, VentilatedItemProcessedMessage], [], [], [] ]"
    by code_simp
  moreover have "map_option queue (shared_results_queue stranded4) = Some []"
    by code_simp
  ultimately show ?thesis by simp
qed

subsection \<open>The capacities of the result queues\<close>

text \<open>
  C10. On every pool whose stop event is not set, \<^verbatim>\<open>start()\<close> returns, each of the
  \<open>N\<close> output queues it has allocated is empty and has capacity 5, and the shared queue
  is empty and has capacity 25; with any other value of \<^verbatim>\<open>results_queue_size\<close> in the
  pool, \<^verbatim>\<open>start()\<close> returns the same pool but for that value.
\<close>

theorem start_allocates_fixed_capacities:
  assumes "\<not> stop_event p"
  shows "fst (start vent p) = Returned ()
       \<and> map_option (map maxsize) (results_queues (snd (start vent p)))
           = Some (replicate (nat (workers_count p)) 5)
       \<and> map_option (map queue) (results_queues (snd (start vent p)))
           = Some (replicate (nat (workers_count p)) [])
       \<and> map_option maxsize (shared_results_queue (snd (start vent p))) = Some 25
       \<and> map_option queue (shared_results_queue (snd (start vent p))) = Some []
       \<and> start vent (p\<lparr>results_queue_size := r\<rparr>)
           = (Returned (), (snd (start vent p))\<lparr>results_queue_size := r\<rparr>)"
  using assms by (simp add: start_def Let_def Queue_def split: option.splits)

text \<open>C10 on \<^verbatim>\<open>ThreadPool(4, results_queue_size=50)\<close> and
  \<^verbatim>\<open>ThreadPool(4, results_queue_size=7)\<close>.\<close>

theorem start_allocates_fixed_capacities_witness:
  "\<not> stop_event (ThreadPool_init 4 50 False False None)
   \<and> start None (ThreadPool_init 4 50 False False None) = (Returned (), started4)
   \<and> map_option (map maxsize) (results_queues started4) = Some [5, 5, 5, 5]
   \<and> map_option (map queue) (results_queues started4) = Some [ [], [], [], [] ]
   \<and> map_option maxsize (shared_results_queue started4) = Some 25
   \<and> map_option queue (shared_results_queue started4) = Some []
   \<and> start None (ThreadPool_init 4 7 False False None)
       = (Returned (), started4\<lparr>results_queue_size := 7\<rparr>)"
proof -
  have n: "\<not> stop_event (ThreadPool_init 4 50 False False None)"
    by (simp add: ThreadPool_init_def)
  have h: "snd (start None (ThreadPool_init 4 50 False False None)) = started4"
    by (simp add: started4_def pool4_def)
  have e: "(ThreadPool_init 4 50 False False None)\<lparr>results_queue_size := 7\<rparr>
           = ThreadPool_init 4 7 False False None"
    by (simp add: ThreadPool_init_def)
  have w: "workers_count (ThreadPool_init 4 50 False False None) = 4"
    by (simp add: ThreadPool_init_def)
  have r: "replicate (nat 4) (5::int) = [5, 5, 5, 5]"
    and r': "replicate (nat 4) ([]::payload list) = [ [], [], [], [] ]"
    by code_simp+
  from start_allocates_fixed_capacities [OF n, of None 7]
  have "fst (start None (ThreadPool_init 4 50 False False None)) = Returned ()
       \<and> map_option (map maxsize) (results_queues started4) = Some [5, 5, 5, 5]
       \<and> map_option (map queue) (results_queues started4) = Some [ [], [], [], [] ]
       \<and> map_option maxsize (shared_results_queue started4) = Some 25
       \<and> map_option queue (shared_results_queue started4) = Some []
       \<and> start None (ThreadPool_init 4 7 False False None)
           = (Returned (), started4\<lparr>results_queue_size := 7\<rparr>)"
    unfolding h e w r r' .
  moreover from this h
  have "start None (ThreadPool_init 4 50 False False None) = (Returned (), started4)"
    by (metis prod.collapse)
  ultimately show ?thesis using n by blast
qed

end
